theory Spec2Isabelle
  imports Main
begin

section \<open>The agency cache manager of nalgonda (agency_manager.py)\<close>

text \<open>
  The class \<open>AgencyManager\<close> keeps a dictionary \<open>cache\<close> from cache keys (strings) to live
  agency instances and an \<open>asyncio.Lock\<close>. Every public method runs its body inside
  \<open>async with self.lock\<close>. The model is sequential: a method is a function from the state
  in which it is called to its result and the state it leaves. Waiting for a lock that is
  held is the value \<open>None\<close> (nothing else runs in a sequential model, so the caller would
  never get the lock).
\<close>

subsection \<open>Data\<close>

text \<open>The classes registered in \<open>TOOL_MAPPING\<close> (custom_tools/__init__.py).\<close>

datatype tool =
    CodeInterpreter | Retrieval | BuildDirectoryTree | GenerateProposal | PrintFileContents
  | SaveLeadToAirtable | SearchWeb | SummarizeCode | WriteAndSaveProgram

text \<open>
  One element of \<open>config.agents\<close>: the fields that \<open>load_agency_from_config\<close> reads
  (\<open>agent_conf.id\<close>, \<open>.role\<close>, \<open>.description\<close>, \<open>.instructions\<close>, \<open>.files_folder\<close>,
  \<open>.tools\<close>).
\<close>

record agent_config =
  conf_id :: "string option"
  role :: string
  conf_description :: string
  conf_instructions :: string
  conf_files_folder :: "string option"
  conf_tools :: "string list"

text \<open>The keyword arguments of the \<open>Agent(...)\<close> constructor of agency-swarm.\<close>

record agent =
  agent_id :: "string option"
  name :: string
  description :: string
  instructions :: string
  files_folder :: "string option"
  tools :: "tool list"

text \<open>
  An element of an agency chart is a single entry or a list of entries
  (\<open>isinstance(chart, list)\<close>).
\<close>

datatype 'a chart_entry = Single 'a | Chain "'a list"

record agency_config =
  agents :: "agent_config list"
  agency_chart :: "string chart_entry list"
  agency_manifesto :: string

text \<open>
  The live instance built by agency-swarm. The manager reads \<open>agency.main_thread.id\<close> and
  \<open>agency.agents\<close> only; the rest of the object is opaque to it.
\<close>

record agency =
  runtime_agents :: "agent list"
  main_thread_id :: "string option"

text \<open>
  Errors are values. \<open>KeyError\<close> is Python's, raised by a subscript on a dictionary, and
  carries the missing key. \<open>ConfigurationNotFound\<close> and \<open>GraphConstructionError\<close> are the
  names of the specification for a missing configuration record and for the runtime
  rejecting a chart; \<open>RuntimeFailure\<close> is any other exception of the runtime.
\<close>

datatype error =
    ConfigurationNotFound
  | KeyError string
  | GraphConstructionError
  | RuntimeFailure string

type_synonym config_store = "string \<rightharpoonup> agency_config"

text \<open>
  What the code calls and this repository's sources do not define: the constructors
  \<open>Agent(id=..., name=..., ..., tools=...)\<close> and
  \<open>Agency(agency_chart, shared_instructions=...)\<close> of agency-swarm, each of which may raise
  (the first, for one, on a \<open>files_folder\<close> that is not a directory); the method
  \<open>config.update_agent_ids_in_config(agency_id, agents=...)\<close>; and the value that
  \<open>uuid.uuid4().hex\<close> yields at this call. \<open>Agent\<close> takes the record of its keyword
  arguments and gives the object it constructs, or the exception.
\<close>

record env =
  Agent :: "agent \<Rightarrow> error + agent"
  Agency :: "agent chart_entry list \<Rightarrow> string \<Rightarrow> error + agency"
  update_agent_ids_in_config :: "agency_config \<Rightarrow> string \<Rightarrow> agent list \<Rightarrow> agency_config"
  uuid4_hex :: string

text \<open>
  The state: \<open>self.cache\<close>, \<open>self.lock\<close> (\<open>True\<close> while held) and the configuration store
  behind \<open>AgencyConfig.load\<close> and \<open>config.save\<close>.
\<close>

record system =
  cache :: "string \<rightharpoonup> agency"
  lock :: bool
  configs :: config_store

subsection \<open>The cache key\<close>

text \<open>
  \<^verbatim>\<open>return f"{agency_id}/{thread_id}" if thread_id else agency_id\<close>

  The condition is Python's truth value of \<open>thread_id\<close>: false for \<open>None\<close> and for the empty
  string.
\<close>

fun get_cache_key :: "string \<Rightarrow> string option \<Rightarrow> string" where
  "get_cache_key agency_id None = agency_id"
| "get_cache_key agency_id (Some thread_id) =
     (if thread_id \<noteq> [] then agency_id @ ''/'' @ thread_id else agency_id)"

subsection \<open>The lock\<close>

text \<open>
  \<open>async with self.lock: body\<close> acquires the lock, runs the body and releases the lock on
  every way out of the body, an exception included (the body's result carries it).
\<close>

definition with_lock :: "(system \<Rightarrow> 'r \<times> system) \<Rightarrow> system \<Rightarrow> ('r \<times> system) option" where
  "with_lock body s =
     (if lock s then None
      else (case body (s\<lparr>lock := True\<rparr>) of (r, s') \<Rightarrow> Some (r, s'\<lparr>lock := False\<rparr>)))"

subsection \<open>Lookup, insertion, removal\<close>

definition get_agency ::
  "string \<Rightarrow> string option \<Rightarrow> system \<Rightarrow> (agency option \<times> system) option" where
  "get_agency agency_id thread_id =
     with_lock (\<lambda>s. (cache s (get_cache_key agency_id thread_id), s))"

definition cache_agency ::
  "agency \<Rightarrow> string \<Rightarrow> string option \<Rightarrow> system \<Rightarrow> (unit \<times> system) option" where
  "cache_agency agency agency_id thread_id =
     with_lock (\<lambda>s. let cache_key = get_cache_key agency_id thread_id
                     in ((), s\<lparr>cache := (cache s)(cache_key \<mapsto> agency)\<rparr>))"

definition delete_agency_from_cache ::
  "string \<Rightarrow> string option \<Rightarrow> system \<Rightarrow> (unit \<times> system) option" where
  "delete_agency_from_cache agency_id thread_id =
     with_lock (\<lambda>s. ((), s\<lparr>cache := (cache s)(get_cache_key agency_id thread_id := None)\<rparr>))"

subsection \<open>Thread identity refresh\<close>

text \<open>
  \<^verbatim>\<open>
  new_thread_id = agency.main_thread.id
  if thread_id != new_thread_id:
      await self.cache_agency(agency, agency_id, new_thread_id)
      await self.delete_agency_from_cache(agency_id, thread_id)
      return new_thread_id
  return None
  \<close>
  The two calls take the lock one after the other.
\<close>

definition refresh_thread_id ::
  "agency \<Rightarrow> string \<Rightarrow> string option \<Rightarrow> system \<Rightarrow> (string option \<times> system) option" where
  "refresh_thread_id agency agency_id thread_id s =
     (let new_thread_id = main_thread_id agency in
      if thread_id \<noteq> new_thread_id then
        (case cache_agency agency agency_id new_thread_id s of
           None \<Rightarrow> None
         | Some (_, s1) \<Rightarrow>
             (case delete_agency_from_cache agency_id thread_id s1 of
                None \<Rightarrow> None
              | Some (_, s2) \<Rightarrow> Some (new_thread_id, s2)))
      else Some (None, s))"

subsection \<open>The agent factory\<close>

text \<open>A subscript \<open>d[k]\<close> on a dictionary raises \<open>KeyError(k)\<close> when the key is missing.\<close>

definition getitem :: "(string \<rightharpoonup> 'v) \<Rightarrow> string \<Rightarrow> error + 'v" where
  "getitem d k = (case d k of None \<Rightarrow> Inl (KeyError k) | Some v \<Rightarrow> Inr v)"

definition TOOL_MAPPING :: "string \<rightharpoonup> tool" where
  "TOOL_MAPPING = map_of
     [(''CodeInterpreter'', CodeInterpreter),
      (''Retrieval'', Retrieval),
      (''BuildDirectoryTree'', BuildDirectoryTree),
      (''GenerateProposal'', GenerateProposal),
      (''PrintFileContents'', PrintFileContents),
      (''SaveLeadToAirtable'', SaveLeadToAirtable),
      (''SearchWeb'', SearchWeb),
      (''SummarizeCode'', SummarizeCode),
      (''WriteAndSaveProgram'', WriteAndSaveProgram)]"

text \<open>
  \<^verbatim>\<open>[TOOL_MAPPING[tool] for tool in agent_conf.tools if tool in TOOL_MAPPING]\<close>

  The comprehension runs through the declared names in order; a subscript that raised would
  end it with that error.
\<close>

fun resolve_tools :: "string list \<Rightarrow> error + tool list" where
  "resolve_tools [] = Inr []"
| "resolve_tools (t # ts) =
     (if TOOL_MAPPING t \<noteq> None then
        (case getitem TOOL_MAPPING t of
           Inl e \<Rightarrow> Inl e
         | Inr c \<Rightarrow> (case resolve_tools ts of Inl e \<Rightarrow> Inl e | Inr cs \<Rightarrow> Inr (c # cs)))
      else resolve_tools ts)"

text \<open>
  \<^verbatim>\<open>Agent(id=agent_conf.id, name=f"{agent_conf.role}_{agency_id}", ..., tools=[...])\<close>

  The keyword arguments are evaluated first, the tool comprehension among them; then the
  constructor runs, and what it raises leaves the factory.
\<close>

definition build_agent :: "env \<Rightarrow> string \<Rightarrow> agent_config \<Rightarrow> error + agent" where
  "build_agent e agency_id agent_conf =
     (case resolve_tools (conf_tools agent_conf) of
        Inl err \<Rightarrow> Inl err
      | Inr ts \<Rightarrow>
          Agent e \<lparr>agent_id = conf_id agent_conf,
                   name = role agent_conf @ ''_'' @ agency_id,
                   description = conf_description agent_conf,
                   instructions = conf_instructions agent_conf,
                   files_folder = conf_files_folder agent_conf,
                   tools = ts\<rparr>)"

text \<open>
  The dictionary comprehension \<open>{agent_conf.role: Agent(...) for agent_conf in config.agents}\<close>:
  entries are stored in order, a later entry with the same role replaces the earlier one,
  and the first constructor that raises ends the comprehension.
\<close>

fun build_agents ::
  "env \<Rightarrow> string \<Rightarrow> agent_config list \<Rightarrow> (string \<rightharpoonup> agent) \<Rightarrow> error + (string \<rightharpoonup> agent)"
  where
  "build_agents e agency_id [] acc = Inr acc"
| "build_agents e agency_id (agent_conf # rest) acc =
     (case build_agent e agency_id agent_conf of
        Inl err \<Rightarrow> Inl err
      | Inr a \<Rightarrow> build_agents e agency_id rest (acc(role agent_conf \<mapsto> a)))"

text \<open>
  \<^verbatim>\<open>
  agency_chart = [
      [agents[role] for role in chart] if isinstance(chart, list) else agents[chart]
      for chart in config.agency_chart
  ]
  \<close>
\<close>

fun lookup_roles :: "(string \<rightharpoonup> agent) \<Rightarrow> string list \<Rightarrow> error + agent list" where
  "lookup_roles d [] = Inr []"
| "lookup_roles d (r # rs) =
     (case getitem d r of
        Inl e \<Rightarrow> Inl e
      | Inr a \<Rightarrow> (case lookup_roles d rs of Inl e \<Rightarrow> Inl e | Inr as \<Rightarrow> Inr (a # as)))"

fun build_chart_entry ::
  "(string \<rightharpoonup> agent) \<Rightarrow> string chart_entry \<Rightarrow> error + agent chart_entry" where
  "build_chart_entry d (Chain rs) =
     (case lookup_roles d rs of Inl e \<Rightarrow> Inl e | Inr as \<Rightarrow> Inr (Chain as))"
| "build_chart_entry d (Single r) =
     (case getitem d r of Inl e \<Rightarrow> Inl e | Inr a \<Rightarrow> Inr (Single a))"

fun build_chart ::
  "(string \<rightharpoonup> agent) \<Rightarrow> string chart_entry list \<Rightarrow> error + agent chart_entry list" where
  "build_chart d [] = Inr []"
| "build_chart d (c # cs) =
     (case build_chart_entry d c of
        Inl e \<Rightarrow> Inl e
      | Inr x \<Rightarrow> (case build_chart d cs of Inl e \<Rightarrow> Inl e | Inr xs \<Rightarrow> Inr (x # xs)))"

text \<open>
  Modelled from the spec: \<open>AgencyConfig.load(agency_id)\<close>, a method of
  nalgonda/models/agency_config.py, which is not among the sources. The specification:
  the factory "fails with ConfigurationNotFound if the store has no record".
\<close>

definition AgencyConfig_load :: "config_store \<Rightarrow> string \<Rightarrow> error + agency_config" where
  "AgencyConfig_load store agency_id =
     (case store agency_id of None \<Rightarrow> Inl ConfigurationNotFound | Some config \<Rightarrow> Inr config)"

text \<open>
  Modelled from the spec: \<open>config.save(agency_id)\<close>, of the same missing module. The
  specification gives the store the interface \<open>save(config) -> void\<close>; the record is kept under
  the identity it is saved with.
\<close>

definition AgencyConfig_save :: "config_store \<Rightarrow> string \<Rightarrow> agency_config \<Rightarrow> config_store" where
  "AgencyConfig_save store agency_id config = store(agency_id \<mapsto> config)"

text \<open>
  \<open>load_agency_from_config\<close>. Every exception leaves before \<open>config.save\<close>, so a failure
  returns the error alone and a success returns the instance and the store after the save.
  The timing and the log line have no part in the result.
\<close>

definition load_agency_from_config ::
  "env \<Rightarrow> string \<Rightarrow> config_store \<Rightarrow> error + (agency \<times> config_store)" where
  "load_agency_from_config e agency_id store =
     (case AgencyConfig_load store agency_id of
        Inl err \<Rightarrow> Inl err
      | Inr config \<Rightarrow>
     (case build_agents e agency_id (agents config) Map.empty of
        Inl err \<Rightarrow> Inl err
      | Inr agents_dict \<Rightarrow>
     (case build_chart agents_dict (agency_chart config) of
        Inl err \<Rightarrow> Inl err
      | Inr chart \<Rightarrow>
     (case Agency e chart (agency_manifesto config) of
        Inl err \<Rightarrow> Inl err
      | Inr agency \<Rightarrow>
          Inr (agency,
               AgencyConfig_save store agency_id
                 (update_agent_ids_in_config e config agency_id (runtime_agents agency)))))))"

subsection \<open>Creation\<close>

text \<open>
  \<open>agency_id or uuid.uuid4().hex\<close>: the generated identifier replaces an identifier that is
  \<open>None\<close> or the empty string.
\<close>

fun or_uuid :: "string option \<Rightarrow> string \<Rightarrow> string" where
  "or_uuid None u = u"
| "or_uuid (Some agency_id) u = (if agency_id \<noteq> [] then agency_id else u)"

text \<open>
  \<^verbatim>\<open>
  agency_id = agency_id or uuid.uuid4().hex
  async with self.lock:
      agency = await asyncio.to_thread(self.load_agency_from_config, agency_id)
      self.cache[agency_id] = agency
      return agency, agency_id
  \<close>
\<close>

definition create_agency ::
  "env \<Rightarrow> string option \<Rightarrow> system \<Rightarrow> ((error + agency \<times> string) \<times> system) option" where
  "create_agency e agency_id =
     (let agency_id = or_uuid agency_id (uuid4_hex e) in
      with_lock (\<lambda>s.
        (case load_agency_from_config e agency_id (configs s) of
           Inl err \<Rightarrow> (Inl err, s)
         | Inr (agency, store) \<Rightarrow>
             (Inr (agency, agency_id),
              s\<lparr>cache := (cache s)(agency_id \<mapsto> agency), configs := store\<rparr>))))"

subsection \<open>Sequences of calls\<close>

text \<open>
  A caller's use of the manager over time is a list of calls, run one after the other on
  the state.
\<close>

datatype call =
    CreateAgency env "string option"
  | GetAgency string "string option"
  | CacheAgency agency string "string option"
  | DeleteAgencyFromCache string "string option"
  | RefreshThreadId agency string "string option"

fun step :: "call \<Rightarrow> system \<Rightarrow> system option" where
  "step (CreateAgency e agency_id) s = map_option snd (create_agency e agency_id s)"
| "step (GetAgency agency_id thread_id) s = map_option snd (get_agency agency_id thread_id s)"
| "step (CacheAgency agency agency_id thread_id) s =
     map_option snd (cache_agency agency agency_id thread_id s)"
| "step (DeleteAgencyFromCache agency_id thread_id) s =
     map_option snd (delete_agency_from_cache agency_id thread_id s)"
| "step (RefreshThreadId agency agency_id thread_id) s =
     map_option snd (refresh_thread_id agency agency_id thread_id s)"

fun run :: "call list \<Rightarrow> system \<Rightarrow> system option" where
  "run [] s = Some s"
| "run (c # cs) s = (case step c s of None \<Rightarrow> None | Some s' \<Rightarrow> run cs s')"

text \<open>
  The cache keys under which a call, made in the state \<open>s\<close>, stores or removes an entry:
  \<open>self.cache[agency_id] = agency\<close> of a creation whose factory has returned, the
  assignment of \<open>cache_agency\<close>, the \<open>pop\<close> of \<open>delete_agency_from_cache\<close>, and both of a
  refresh whose instance reports another thread identity than the one passed. A lookup, a
  creation whose factory raises and a refresh with the thread identity unchanged write
  nothing.
\<close>

fun writes :: "call \<Rightarrow> system \<Rightarrow> string list" where
  "writes (CreateAgency e agency_id) s =
     (case load_agency_from_config e (or_uuid agency_id (uuid4_hex e)) (configs s) of
        Inl err \<Rightarrow> []
      | Inr r \<Rightarrow> [or_uuid agency_id (uuid4_hex e)])"
| "writes (GetAgency agency_id thread_id) s = []"
| "writes (CacheAgency agency agency_id thread_id) s = [get_cache_key agency_id thread_id]"
| "writes (DeleteAgencyFromCache agency_id thread_id) s =
     [get_cache_key agency_id thread_id]"
| "writes (RefreshThreadId agency agency_id thread_id) s =
     (if thread_id \<noteq> main_thread_id agency
      then [get_cache_key agency_id (main_thread_id agency), get_cache_key agency_id thread_id]
      else [])"

text \<open>No call of the list, each made in the state its predecessors leave, writes the key.\<close>

fun untouched :: "string \<Rightarrow> call list \<Rightarrow> system \<Rightarrow> bool" where
  "untouched k [] s = True"
| "untouched k (c # cs) s =
     (k \<notin> set (writes c s) \<and>
      (case step c s of None \<Rightarrow> False | Some s' \<Rightarrow> untouched k cs s'))"

subsection \<open>Vocabulary of the properties\<close>


text \<open>
  The keyword arguments with which the factory calls \<open>Agent\<close> for an agent configuration
  once the tool names are resolved to \<open>ts\<close>.
\<close>

definition agent_kwargs :: "string \<Rightarrow> agent_config \<Rightarrow> tool list \<Rightarrow> agent" where
  "agent_kwargs agency_id agent_conf ts =
     \<lparr>agent_id = conf_id agent_conf,
      name = role agent_conf @ ''_'' @ agency_id,
      description = conf_description agent_conf,
      instructions = conf_instructions agent_conf,
      files_folder = conf_files_folder agent_conf,
      tools = ts\<rparr>"


text \<open>The roles a chart names, in the order in which the factory looks them up.\<close>

fun entry_roles :: "string chart_entry \<Rightarrow> string list" where
  "entry_roles (Single r) = [r]"
| "entry_roles (Chain rs) = rs"

definition chart_roles :: "agency_config \<Rightarrow> string list" where
  "chart_roles config = concat (map entry_roles (agency_chart config))"

text \<open>The roles of the chart that no agent of the configuration declares.\<close>

definition undeclared_roles :: "agency_config \<Rightarrow> string list" where
  "undeclared_roles config =
     filter (\<lambda>r. r \<notin> set (map role (agents config))) (chart_roles config)"

subsection \<open>Example data\<close>

text \<open>
  Instances whose main thread has no identity, the empty identity and the identity
  \<open>th1\<close>; states that hold one instance under the key \<open>acme\<close>, and none.
\<close>

definition idle_agency :: agency where
  "idle_agency = \<lparr>runtime_agents = [], main_thread_id = None\<rparr>"

definition blank_thread_agency :: agency where
  "blank_thread_agency = \<lparr>runtime_agents = [], main_thread_id = Some ''''\<rparr>"

definition th1_agency :: agency where
  "th1_agency = \<lparr>runtime_agents = [], main_thread_id = Some ''th1''\<rparr>"

definition cached_acme :: "agency \<Rightarrow> system" where
  "cached_acme g = \<lparr>cache = [''acme'' \<mapsto> g], lock = False, configs = Map.empty\<rparr>"

definition empty_system :: system where
  "empty_system = \<lparr>cache = Map.empty, lock = False, configs = Map.empty\<rparr>"

text \<open>
  The configuration of the specification's scenario (one agent of role \<open>ceo\<close>, chart
  \<open>["ceo"]\<close>), here with one declared tool that the registry does not know; a
  configuration whose chart names the role \<open>cto\<close> that no agent declares; and one that
  does so too and whose agent has a files folder that does not exist.
\<close>

definition ceo_conf :: agent_config where
  "ceo_conf =
     \<lparr>conf_id = None, role = ''ceo'', conf_description = ''Chief executive'',
      conf_instructions = ''Lead the agency'', conf_files_folder = None,
      conf_tools = [''SearchWeb'', ''NoSuchTool'', ''CodeInterpreter'']\<rparr>"

definition acme_config :: agency_config where
  "acme_config =
     \<lparr>agents = [ceo_conf], agency_chart = [Single ''ceo''], agency_manifesto = ''Manifesto''\<rparr>"

definition broken_config :: agency_config where
  "broken_config =
     \<lparr>agents = [ceo_conf], agency_chart = [Chain [''ceo'', ''cto'']],
      agency_manifesto = ''Manifesto''\<rparr>"

definition bad_folder_config :: agency_config where
  "bad_folder_config =
     \<lparr>agents = [ceo_conf\<lparr>conf_files_folder := Some ''no-such-folder''\<rparr>],
      agency_chart = [Chain [''ceo'', ''cto'']],
      agency_manifesto = ''Manifesto''\<rparr>"

text \<open>
  An \<open>Agent\<close> constructor that keeps its arguments and raises on the folder that does not
  exist. A runtime that accepts every chart and one that rejects every chart; both leave
  the configuration as it is and draw the same identifier, which the store of
  \<open>acme_system\<close> does not hold.
\<close>

definition example_Agent :: "agent \<Rightarrow> error + agent" where
  "example_Agent kwargs =
     (if files_folder kwargs = Some ''no-such-folder''
      then Inl (RuntimeFailure ''Files folder path is not a directory.'')
      else Inr kwargs)"

definition accepting_env :: env where
  "accepting_env =
     \<lparr>Agent = example_Agent,
      Agency = (\<lambda>chart shared_instructions. Inr idle_agency),
      update_agent_ids_in_config = (\<lambda>config agency_id as. config),
      uuid4_hex = ''0123456789abcdef0123456789abcdef''\<rparr>"

definition rejecting_env :: env where
  "rejecting_env =
     \<lparr>Agent = example_Agent,
      Agency = (\<lambda>chart shared_instructions. Inl GraphConstructionError),
      update_agent_ids_in_config = (\<lambda>config agency_id as. config),
      uuid4_hex = ''0123456789abcdef0123456789abcdef''\<rparr>"

definition acme_system :: system where
  "acme_system =
     \<lparr>cache = Map.empty, lock = False,
      configs = [''acme'' \<mapsto> acme_config, ''broken'' \<mapsto> broken_config,
                 ''bad-folder'' \<mapsto> bad_folder_config]\<rparr>"

text \<open>
  The state after \<open>create_agency\<close> has built the agency \<open>acme\<close> in \<open>acme_system\<close>; the
  state after another instance has then been stored under the same key; and a later use
  of the manager that leaves the key \<open>acme\<close> alone, with a refresh of that very key whose
  thread identity is unchanged and a creation that fails among its calls.
\<close>

definition acme_created :: system where
  "acme_created =
     acme_system\<lparr>cache := [''acme'' \<mapsto> idle_agency],
                  configs := (configs acme_system)(''acme'' \<mapsto> acme_config)\<rparr>"

definition acme_overwritten :: system where
  "acme_overwritten = acme_created\<lparr>cache := [''acme'' \<mapsto> th1_agency]\<rparr>"

definition later_calls :: "call list" where
  "later_calls =
     [GetAgency ''acme'' None,
      RefreshThreadId idle_agency ''acme'' None,
      CacheAgency th1_agency ''acme'' (Some ''th1''),
      DeleteAgencyFromCache ''other'' None,
      RefreshThreadId th1_agency ''other'' None,
      CreateAgency accepting_env (Some ''broken''),
      CreateAgency accepting_env None]"

section \<open>Properties\<close>

subsection \<open>The operations when the lock is free\<close>

lemma get_agency_free:
  "\<not> lock s \<Longrightarrow> get_agency a t s = Some (cache s (get_cache_key a t), s)"
  by (simp add: get_agency_def with_lock_def)

lemma cache_agency_free:
  "\<not> lock s \<Longrightarrow>
   cache_agency g a t s = Some ((), s\<lparr>cache := (cache s)(get_cache_key a t \<mapsto> g)\<rparr>)"
  by (simp add: cache_agency_def with_lock_def)

lemma delete_agency_from_cache_free:
  "\<not> lock s \<Longrightarrow>
   delete_agency_from_cache a t s =
     Some ((), s\<lparr>cache := (cache s)(get_cache_key a t := None)\<rparr>)"
  by (simp add: delete_agency_from_cache_def with_lock_def)

lemma refresh_thread_id_free:
  "\<not> lock s \<Longrightarrow>
   refresh_thread_id g a t s =
     (if t \<noteq> main_thread_id g
      then Some (main_thread_id g,
                 s\<lparr>cache := ((cache s)(get_cache_key a (main_thread_id g) \<mapsto> g))
                              (get_cache_key a t := None)\<rparr>)
      else Some (None, s))"
  by (simp add: refresh_thread_id_def Let_def cache_agency_free delete_agency_from_cache_free)

lemma create_agency_free:
  "\<not> lock s \<Longrightarrow>
   create_agency e aid s =
     (case load_agency_from_config e (or_uuid aid (uuid4_hex e)) (configs s) of
        Inl err \<Rightarrow> Some (Inl err, s)
      | Inr (g, store) \<Rightarrow>
          Some (Inr (g, or_uuid aid (uuid4_hex e)),
                s\<lparr>cache := (cache s)(or_uuid aid (uuid4_hex e) \<mapsto> g), configs := store\<rparr>))"
  by (simp add: create_agency_def with_lock_def Let_def split: sum.splits prod.splits)

subsection \<open>The cache key\<close>

text \<open>
  Two thread identities give one agency the same key exactly when they are equal or each of
  them is absent or empty.
\<close>

lemma get_cache_key_eq_iff:
  "get_cache_key a t1 = get_cache_key a t2 \<longleftrightarrow>
     (t1 = t2 \<or> (t1 \<in> {None, Some []} \<and> t2 \<in> {None, Some []}))"
  by (cases t1; cases t2) auto

text \<open>
  C4, as the claim states it, fails: a thread identity that is present but empty gives the
  agency identity alone, not the agency identity followed by a slash.
\<close>

theorem get_cache_key_present_empty_counterexample:
  "get_cache_key ''acme'' (Some '''') \<noteq> ''acme'' @ ''/'' @ ''''"
  by simp

text \<open>
  C4, amended: for a thread identity that is present and not empty the key is the agency
  identity, a slash and the thread identity; for a thread identity that is absent or the
  empty string the key is the agency identity.
\<close>

theorem get_cache_key_cases:
  "(t \<noteq> [] \<longrightarrow> get_cache_key a (Some t) = a @ ''/'' @ t) \<and>
   get_cache_key a (Some []) = a \<and>
   get_cache_key a None = a"
  by simp

theorem get_cache_key_cases_witness:
  "''th1'' \<noteq> [] \<and> get_cache_key ''acme'' (Some ''th1'') = ''acme/th1'' \<and>
   get_cache_key ''acme'' (Some []) = ''acme'' \<and> get_cache_key ''acme'' None = ''acme''"
  using get_cache_key_cases [of "''th1''" "''acme''"] by simp

text \<open>
  C9: the key is a function of the agency identity and the thread identity, and for one
  agency identity two different thread identities that are both present give different
  keys (the empty thread identity included: its key has no slash after the agency
  identity, every other key has one).
\<close>

theorem get_cache_key_deterministic_injective:
  "get_cache_key a t = get_cache_key a t \<and>
   (t1 \<noteq> t2 \<longrightarrow> get_cache_key a (Some t1) \<noteq> get_cache_key a (Some t2))"
  by auto

theorem get_cache_key_deterministic_injective_witness:
  "''th1'' \<noteq> ''th2'' \<and>
   get_cache_key ''acme'' (Some ''th1'') \<noteq> get_cache_key ''acme'' (Some ''th2'')"
  using get_cache_key_deterministic_injective [of "''acme''" None "''th1''" "''th2''"]
  by simp

text \<open>
  C10: the empty thread identity is treated as an absent one. Its key is the agency
  identity. With the empty thread identity, as with none, a lookup returns the entry under
  the key \<open>a\<close> and leaves the state as it is, an insertion overwrites the entry under the
  key \<open>a\<close> with the instance, and a removal removes the entry under the key \<open>a\<close>; each
  waits when the lock is held.
\<close>

theorem empty_thread_id_is_absent:
  "get_cache_key a (Some '''') = a \<and>
   get_cache_key a None = a \<and>
   get_agency a (Some '''') s = (if lock s then None else Some (cache s a, s)) \<and>
   get_agency a None s = (if lock s then None else Some (cache s a, s)) \<and>
   cache_agency g a (Some '''') s
     = (if lock s then None else Some ((), s\<lparr>cache := (cache s)(a \<mapsto> g)\<rparr>)) \<and>
   cache_agency g a None s
     = (if lock s then None else Some ((), s\<lparr>cache := (cache s)(a \<mapsto> g)\<rparr>)) \<and>
   delete_agency_from_cache a (Some '''') s
     = (if lock s then None else Some ((), s\<lparr>cache := (cache s)(a := None)\<rparr>)) \<and>
   delete_agency_from_cache a None s
     = (if lock s then None else Some ((), s\<lparr>cache := (cache s)(a := None)\<rparr>))"
  by (simp add: get_agency_def cache_agency_def delete_agency_from_cache_def with_lock_def)

theorem empty_thread_id_is_absent_witness:
  "get_agency ''acme'' (Some '''') (cached_acme idle_agency)
     = Some (Some idle_agency, cached_acme idle_agency) \<and>
   cache_agency th1_agency ''acme'' (Some '''') (cached_acme idle_agency)
     = Some ((), cached_acme th1_agency) \<and>
   delete_agency_from_cache ''acme'' (Some '''') (cached_acme idle_agency)
     = Some ((), empty_system)"
  using empty_thread_id_is_absent [of "''acme''" "cached_acme idle_agency" th1_agency]
  by (simp add: cached_acme_def empty_system_def)

subsection \<open>Thread identity refresh\<close>

text \<open>
  C1, as the claim states it, fails where the observed and the reported thread identity
  differ but give the same key. The instance is cached under \<open>acme\<close>, the caller observed
  no thread identity and the runtime reports the empty one: the call returns the empty
  identity, and a lookup with that identity then finds nothing.
\<close>

theorem refresh_thread_id_same_key_counterexample:
  "cache (cached_acme blank_thread_agency) (get_cache_key ''acme'' None)
     = Some blank_thread_agency \<and>
   refresh_thread_id blank_thread_agency ''acme'' None (cached_acme blank_thread_agency)
     = Some (Some '''', empty_system) \<and>
   get_agency ''acme'' (Some '''') empty_system = Some (None, empty_system)"
  by (simp add: refresh_thread_id_free get_agency_free cached_acme_def empty_system_def
      blank_thread_agency_def)

text \<open>
  C1, amended: let the instance \<open>i\<close> report the thread identity \<open>t2\<close>. If \<open>t2\<close> differs from
  the observed identity \<open>t\<close> and the two are not both absent-or-empty (so that their keys
  differ), the call returns \<open>t2\<close>, and afterwards a lookup with \<open>t2\<close> returns \<open>i\<close> and a
  lookup with \<open>t\<close> returns nothing. If \<open>t2\<close> equals \<open>t\<close>, the call returns nothing and leaves
  the state as it was. Neither part needs \<open>i\<close> to be cached under the old key.
\<close>

theorem refresh_thread_id_moves_instance:
  assumes "\<not> lock s" and "main_thread_id i = t2"
  shows "(t2 \<noteq> t \<and> \<not> (t \<in> {None, Some ''''} \<and> t2 \<in> {None, Some ''''}) \<longrightarrow>
           (\<exists>s'. refresh_thread_id i a t s = Some (t2, s') \<and>
                 get_agency a t2 s' = Some (Some i, s') \<and>
                 get_agency a t s' = Some (None, s'))) \<and>
         (t2 = t \<longrightarrow> refresh_thread_id i a t s = Some (None, s))"
  using assms
  by (auto simp add: refresh_thread_id_free get_agency_free get_cache_key_eq_iff)

theorem refresh_thread_id_moves_instance_witness:
  "\<exists>s'. refresh_thread_id th1_agency ''acme'' None (cached_acme th1_agency)
           = Some (Some ''th1'', s') \<and>
        get_agency ''acme'' (Some ''th1'') s' = Some (Some th1_agency, s') \<and>
        get_agency ''acme'' None s' = Some (None, s')"
proof -
  have free: "\<not> lock (cached_acme th1_agency)"
    by (simp add: cached_acme_def)
  have reported: "main_thread_id th1_agency = Some ''th1''"
    by (simp add: th1_agency_def)
  from refresh_thread_id_moves_instance [OF free reported, of None "''acme''"]
  show ?thesis by simp
qed

text \<open>
  C2 does not hold of the code. The instance is cached under \<open>acme\<close>, which is the key of
  the observed thread identity, the empty string; the runtime reports no thread identity.
  The two identities differ, so the instance is stored under the new key and the old key is
  removed, but the two keys are the same: afterwards the instance is found under neither,
  and the call has returned nothing, as if no change had happened.
\<close>

theorem refresh_thread_id_loses_instance:
  "cache (cached_acme idle_agency) (get_cache_key ''acme'' (Some '''')) = Some idle_agency \<and>
   refresh_thread_id idle_agency ''acme'' (Some '''') (cached_acme idle_agency)
     = Some (None, empty_system) \<and>
   get_agency ''acme'' (Some '''') empty_system = Some (None, empty_system) \<and>
   get_agency ''acme'' None empty_system = Some (None, empty_system)"
  by (simp add: refresh_thread_id_free get_agency_free cached_acme_def empty_system_def
      idle_agency_def)

subsection \<open>The agent factory\<close>









lemma build_agents_dom:
  "build_agents e aid cs acc = Inr d \<Longrightarrow> dom d = dom acc \<union> set (map role cs)"
proof (induction cs arbitrary: acc)
  case Nil
  then show ?case by simp
next
  case (Cons c cs)
  show ?case
  proof (cases "build_agent e aid c")
    case (Inl err)
    with Cons.prems show ?thesis by simp
  next
    case (Inr a)
    with Cons.prems have "build_agents e aid cs (acc(role c \<mapsto> a)) = Inr d" by simp
    from Cons.IH [OF this] show ?thesis by auto
  qed
qed



text \<open>The chart: the first role without an agent ends the construction with its KeyError.\<close>

lemma lookup_roles_missing:
  "filter (\<lambda>r. d r = None) rs \<noteq> [] \<Longrightarrow>
   lookup_roles d rs = Inl (KeyError (hd (filter (\<lambda>r. d r = None) rs)))"
proof (induction rs)
  case Nil
  then show ?case by simp
next
  case (Cons r rs)
  show ?case
  proof (cases "d r")
    case None
    then show ?thesis by (simp add: getitem_def)
  next
    case (Some a)
    with Cons show ?thesis by (simp add: getitem_def)
  qed
qed

lemma lookup_roles_present:
  "filter (\<lambda>r. d r = None) rs = [] \<Longrightarrow> \<exists>as. lookup_roles d rs = Inr as"
proof (induction rs)
  case Nil
  show ?case by simp
next
  case (Cons r rs)
  from Cons.prems obtain a where a: "d r = Some a" and rest: "filter (\<lambda>r. d r = None) rs = []"
    by (cases "d r") auto
  from Cons.IH [OF rest] obtain as where "lookup_roles d rs = Inr as" ..
  with a show ?case by (simp add: getitem_def)
qed

lemma build_chart_entry_missing:
  "filter (\<lambda>r. d r = None) (entry_roles c) \<noteq> [] \<Longrightarrow>
   build_chart_entry d c = Inl (KeyError (hd (filter (\<lambda>r. d r = None) (entry_roles c))))"
  by (cases c) (auto simp add: lookup_roles_missing getitem_def split: option.splits if_splits)

lemma build_chart_entry_present:
  assumes "filter (\<lambda>r. d r = None) (entry_roles c) = []"
  shows "\<exists>x. build_chart_entry d c = Inr x"
proof (cases c)
  case (Single r)
  with assms show ?thesis by (auto simp add: getitem_def split: option.splits if_splits)
next
  case (Chain rs)
  with assms lookup_roles_present [of d rs] show ?thesis by auto
qed

lemma build_chart_missing:
  "filter (\<lambda>r. d r = None) (concat (map entry_roles cs)) \<noteq> [] \<Longrightarrow>
   build_chart d cs
     = Inl (KeyError (hd (filter (\<lambda>r. d r = None) (concat (map entry_roles cs)))))"
proof (induction cs)
  case Nil
  then show ?case by simp
next
  case (Cons c cs)
  show ?case
  proof (cases "filter (\<lambda>r. d r = None) (entry_roles c) = []")
    case True
    then obtain x where x: "build_chart_entry d c = Inr x"
      using build_chart_entry_present by blast
    from True Cons.prems have "filter (\<lambda>r. d r = None) (concat (map entry_roles cs)) \<noteq> []"
      by simp
    with Cons.IH True x show ?thesis by simp
  next
    case False
    then show ?thesis by (simp add: build_chart_entry_missing)
  qed
qed

lemma load_agency_from_config_undeclared:
  assumes "store agency_id = Some config" and "undeclared_roles config \<noteq> []"
    and "build_agents e agency_id (agents config) Map.empty = Inr d"
  shows "load_agency_from_config e agency_id store
           = Inl (KeyError (hd (undeclared_roles config)))"
proof -
  from build_agents_dom [OF assms(3)] have dom: "dom d = set (map role (agents config))"
    by simp
  have eq: "(\<lambda>r. d r = None) = (\<lambda>r. r \<notin> set (map role (agents config)))"
  proof
    fix r
    have "d r = None \<longleftrightarrow> r \<notin> dom d" by (simp add: domIff)
    then show "(d r = None) = (r \<notin> set (map role (agents config)))" using dom by simp
  qed
  have "build_chart d (agency_chart config) = Inl (KeyError (hd (undeclared_roles config)))"
    using build_chart_missing [of d "agency_chart config"] assms(2)
    by (simp add: undeclared_roles_def chart_roles_def eq)
  then show ?thesis
    using assms(1,3) by (simp add: load_agency_from_config_def AgencyConfig_load_def)
qed

lemma load_agency_from_config_agent_raises:
  assumes "store agency_id = Some config"
    and "build_agents e agency_id (agents config) Map.empty = Inl err"
  shows "load_agency_from_config e agency_id store = Inl err"
  using assms by (simp add: load_agency_from_config_def AgencyConfig_load_def)

subsection \<open>The example configurations\<close>

lemma acme_system_simps:
  "\<not> lock acme_system" "cache acme_system = Map.empty"
  by (simp_all add: acme_system_def)

lemma acme_created_simps:
  "\<not> lock acme_created" "configs acme_created = configs acme_system"
  "cache acme_created = [''acme'' \<mapsto> idle_agency]"
  by (auto simp add: acme_created_def acme_system_def)

lemma accepting_env_uuid: "uuid4_hex accepting_env = ''0123456789abcdef0123456789abcdef''"
  by (simp add: accepting_env_def)

lemma rejecting_env_uuid: "uuid4_hex rejecting_env = ''0123456789abcdef0123456789abcdef''"
  by (simp add: rejecting_env_def)

lemma load_acme_accepting:
  "load_agency_from_config accepting_env k (configs acme_system) =
     (if k = ''acme'' then Inr (idle_agency, (configs acme_system)(k \<mapsto> acme_config))
      else if k = ''broken'' then Inl (KeyError ''cto'')
      else if k = ''bad-folder''
        then Inl (RuntimeFailure ''Files folder path is not a directory.'')
      else Inl ConfigurationNotFound)"
  by (simp add: load_agency_from_config_def AgencyConfig_load_def AgencyConfig_save_def
      acme_system_def acme_config_def broken_config_def bad_folder_config_def ceo_conf_def
      accepting_env_def example_Agent_def build_agent_def getitem_def TOOL_MAPPING_def)

lemma load_acme_rejecting:
  "load_agency_from_config rejecting_env k (configs acme_system) =
     (if k = ''acme'' then Inl GraphConstructionError
      else if k = ''broken'' then Inl (KeyError ''cto'')
      else if k = ''bad-folder''
        then Inl (RuntimeFailure ''Files folder path is not a directory.'')
      else Inl ConfigurationNotFound)"
  by (simp add: load_agency_from_config_def AgencyConfig_load_def AgencyConfig_save_def
      acme_system_def acme_config_def broken_config_def bad_folder_config_def ceo_conf_def
      rejecting_env_def example_Agent_def build_agent_def getitem_def TOOL_MAPPING_def)

lemma undeclared_roles_broken: "undeclared_roles broken_config = [''cto'']"
  by (simp add: undeclared_roles_def chart_roles_def broken_config_def ceo_conf_def)

lemma undeclared_roles_bad_folder: "undeclared_roles bad_folder_config = [''cto'']"
  by (simp add: undeclared_roles_def chart_roles_def bad_folder_config_def ceo_conf_def)

lemma create_acme:
  "create_agency accepting_env (Some ''acme'') acme_system
     = Some (Inr (idle_agency, ''acme''), acme_created)"
  by (simp add: create_agency_free load_acme_accepting acme_system_simps accepting_env_uuid
      acme_created_def)

subsection \<open>Creation\<close>

text \<open>
  C3, as the claim states it, fails. The chart of \<open>broken_config\<close> names the role \<open>cto\<close>,
  which no agent declares, and the runtime would reject every chart with
  GraphConstructionError: the caller gets \<open>KeyError('cto')\<close>, raised by the factory's own
  lookup \<open>agents[role]\<close> before the runtime is called.
\<close>

theorem create_agency_undeclared_role_counterexample:
  "create_agency rejecting_env (Some ''broken'') acme_system
     = Some (Inl (KeyError ''cto''), acme_system) \<and>
   create_agency rejecting_env (Some ''broken'') acme_system
     \<noteq> Some (Inl GraphConstructionError, acme_system)"
  by (simp add: create_agency_free load_acme_rejecting acme_system_simps rejecting_env_uuid)

text \<open>
  C3, amended: for every agency configuration in the store whose chart names a role that
  none of its agents declares, \<open>create\<close> on that agency identity fails and leaves the
  cache, the lock and the store as they were, whatever the runtime would do with the
  chart. If the \<open>Agent\<close> constructor raises for one of the configured agents, the error is
  that exception, since the agents are constructed before the chart is read; if all the
  agents are constructed, it is the KeyError of the first undeclared role in the order of
  the chart.
\<close>

theorem create_agency_undeclared_role:
  assumes "\<not> lock s"
    and "configs s (or_uuid agency_id (uuid4_hex e)) = Some config"
    and "undeclared_roles config \<noteq> []"
  shows "(build_agents e (or_uuid agency_id (uuid4_hex e)) (agents config) Map.empty = Inr d
            \<longrightarrow> create_agency e agency_id s
                  = Some (Inl (KeyError (hd (undeclared_roles config))), s)) \<and>
         (build_agents e (or_uuid agency_id (uuid4_hex e)) (agents config) Map.empty = Inl err
            \<longrightarrow> create_agency e agency_id s = Some (Inl err, s))"
  using assms
  by (simp add: create_agency_free load_agency_from_config_undeclared
      load_agency_from_config_agent_raises)

theorem create_agency_undeclared_role_witness:
  "create_agency accepting_env (Some ''broken'') acme_system
     = Some (Inl (KeyError ''cto''), acme_system) \<and>
   create_agency accepting_env (Some ''bad-folder'') acme_system
     = Some (Inl (RuntimeFailure ''Files folder path is not a directory.''), acme_system)"
proof -
  have free: "\<not> lock acme_system" by (simp add: acme_system_simps)
  have stored: "configs acme_system (or_uuid (Some ''broken'') (uuid4_hex accepting_env))
                  = Some broken_config"
    by (simp add: acme_system_def)
  have undeclared: "undeclared_roles broken_config \<noteq> []"
    by (simp add: undeclared_roles_broken)
  have built: "build_agents accepting_env (or_uuid (Some ''broken'') (uuid4_hex accepting_env))
                 (agents broken_config) Map.empty
               = Inr [''ceo'' \<mapsto> agent_kwargs ''broken'' ceo_conf [SearchWeb, CodeInterpreter]]"
    by (simp add: broken_config_def build_agent_def accepting_env_def example_Agent_def
        agent_kwargs_def ceo_conf_def getitem_def TOOL_MAPPING_def)
  have stored': "configs acme_system (or_uuid (Some ''bad-folder'') (uuid4_hex accepting_env))
                   = Some bad_folder_config"
    by (simp add: acme_system_def)
  have undeclared': "undeclared_roles bad_folder_config \<noteq> []"
    by (simp add: undeclared_roles_bad_folder)
  have raised: "build_agents accepting_env
                  (or_uuid (Some ''bad-folder'') (uuid4_hex accepting_env))
                  (agents bad_folder_config) Map.empty
                = Inl (RuntimeFailure ''Files folder path is not a directory.'')"
    by (simp add: bad_folder_config_def build_agent_def accepting_env_def example_Agent_def
        ceo_conf_def getitem_def TOOL_MAPPING_def)
  from create_agency_undeclared_role [OF free stored undeclared] built
  have first: "create_agency accepting_env (Some ''broken'') acme_system
                 = Some (Inl (KeyError ''cto''), acme_system)"
    by (simp add: undeclared_roles_broken)
  from create_agency_undeclared_role [OF free stored' undeclared'] raised
  have second: "create_agency accepting_env (Some ''bad-folder'') acme_system
                  = Some (Inl (RuntimeFailure ''Files folder path is not a directory.''),
                          acme_system)"
    by simp
  from first second show ?thesis by simp
qed

text \<open>
  C5: if the factory raises an error during \<open>create\<close>, on an agency identity that is given,
  absent or empty, the caller gets that same error, the cache and the store are what they
  were before the call, and the lock is free again.
\<close>

theorem create_agency_failure:
  assumes "\<not> lock s"
    and "load_agency_from_config e (or_uuid agency_id (uuid4_hex e)) (configs s) = Inl err"
  shows "\<exists>s'. create_agency e agency_id s = Some (Inl err, s') \<and>
              cache s' = cache s \<and> \<not> lock s' \<and> configs s' = configs s"
  using assms by (simp add: create_agency_free)

theorem create_agency_failure_witness:
  "\<exists>s'. create_agency rejecting_env (Some ''acme'') acme_system
           = Some (Inl GraphConstructionError, s') \<and>
        cache s' = cache acme_system \<and> \<not> lock s' \<and> configs s' = configs acme_system"
proof -
  have free: "\<not> lock acme_system" by (simp add: acme_system_simps)
  have failed: "load_agency_from_config rejecting_env
                  (or_uuid (Some ''acme'') (uuid4_hex rejecting_env)) (configs acme_system)
                = Inl GraphConstructionError"
    by (simp add: load_acme_rejecting)
  from create_agency_failure [OF free failed] show ?thesis .
qed

text \<open>
  C6: if the configuration store has no record for the agency identity \<open>a\<close>, \<open>create(a)\<close>
  fails with ConfigurationNotFound, the error of the factory's configuration load, and
  changes nothing. The identifier that \<open>uuid4\<close> draws is new to the store; the statement
  needs that only for the empty identity, which \<open>create\<close> replaces by the identifier drawn.
\<close>

theorem create_agency_configuration_not_found:
  assumes "\<not> lock s" and "configs s a = None"
    and "a = [] \<longrightarrow> configs s (uuid4_hex e) = None"
  shows "create_agency e (Some a) s = Some (Inl ConfigurationNotFound, s)"
  using assms
  by (simp add: create_agency_free load_agency_from_config_def AgencyConfig_load_def)

theorem create_agency_configuration_not_found_witness:
  "create_agency accepting_env (Some ''missing-agency'') acme_system
     = Some (Inl ConfigurationNotFound, acme_system) \<and>
   create_agency accepting_env (Some '''') acme_system
     = Some (Inl ConfigurationNotFound, acme_system)"
proof -
  have free: "\<not> lock acme_system" by (simp add: acme_system_simps)
  have missing: "configs acme_system ''missing-agency'' = None"
    by (simp add: acme_system_def)
  have fresh: "''missing-agency'' = [] \<longrightarrow> configs acme_system (uuid4_hex accepting_env) = None"
    by simp
  have missing': "configs acme_system '''' = None"
    by (simp add: acme_system_def)
  have fresh': "'''' = [] \<longrightarrow> configs acme_system (uuid4_hex accepting_env) = None"
    by (simp add: acme_system_def accepting_env_def)
  from create_agency_configuration_not_found [OF free missing fresh]
    create_agency_configuration_not_found [OF free missing' fresh']
  show ?thesis by simp
qed

subsection \<open>Creation, then lookup\<close>

text \<open>
  A call on a free lock returns with the lock free and leaves every cache entry alone
  whose key it does not write.
\<close>

lemma step_frame:
  assumes "\<not> lock s" and "k \<notin> set (writes c s)"
  shows "\<exists>s'. step c s = Some s' \<and> \<not> lock s' \<and> cache s' k = cache s k"
proof (cases c)
  case (CreateAgency e aid)
  with assms show ?thesis
    by (cases "load_agency_from_config e (or_uuid aid (uuid4_hex e)) (configs s)")
       (auto simp add: create_agency_free)
next
  case (GetAgency a t)
  with assms show ?thesis by (simp add: get_agency_free)
next
  case (CacheAgency g a t)
  with assms show ?thesis by (simp add: cache_agency_free)
next
  case (DeleteAgencyFromCache a t)
  with assms show ?thesis by (simp add: delete_agency_from_cache_free)
next
  case (RefreshThreadId g a t)
  with assms show ?thesis
    by (cases "t = main_thread_id g") (simp_all add: refresh_thread_id_free)
qed

lemma run_frame:
  "\<not> lock s \<Longrightarrow> untouched k cs s \<Longrightarrow>
   \<exists>s'. run cs s = Some s' \<and> \<not> lock s' \<and> cache s' k = cache s k"
proof (induction cs arbitrary: s)
  case Nil
  then show ?case by simp
next
  case (Cons c cs)
  from Cons.prems have "k \<notin> set (writes c s)" by simp
  with Cons.prems obtain s1 where
    s1: "step c s = Some s1" "\<not> lock s1" "cache s1 k = cache s k"
    using step_frame [of s k c] by auto
  with Cons.prems have "untouched k cs s1" by simp
  from Cons.IH [OF s1(2) this] s1 show ?case by auto
qed

text \<open>
  C7, as the claim states it, fails: the lookup stops returning the created instance
  without an eviction or a refresh when another instance is stored under the same key.
  After \<open>create("acme")\<close> has returned its instance, an insertion of another instance for
  \<open>acme\<close> without thread identity overwrites the entry, and the lookup returns the other
  instance.
\<close>

theorem create_agency_overwritten_counterexample:
  "create_agency accepting_env (Some ''acme'') acme_system
     = Some (Inr (idle_agency, ''acme''), acme_created) \<and>
   cache_agency th1_agency ''acme'' None acme_created = Some ((), acme_overwritten) \<and>
   get_agency ''acme'' None acme_overwritten = Some (Some th1_agency, acme_overwritten) \<and>
   th1_agency \<noteq> idle_agency"
  by (simp add: create_acme cache_agency_free get_agency_free acme_created_simps
      acme_overwritten_def th1_agency_def idle_agency_def)

text \<open>
  C7, amended: for every agency identity \<open>a\<close>, after \<open>create(a)\<close> has succeeded with the
  instance \<open>i\<close>, the identity it returns is \<open>a\<close>, a lookup of \<open>a\<close> without thread identity
  returns \<open>i\<close>, and it still does after any later calls of the manager none of which
  stores or removes the entry under the key \<open>a\<close>: an insertion under it, a creation of
  \<open>a\<close> that succeeds, a removal of it, or a refresh with a changed thread identity that
  moves an instance to or from it. The identifier that \<open>uuid4\<close> draws is new to the store
  (needed only for the empty identity, on which \<open>create\<close> then cannot succeed).
\<close>

theorem create_agency_then_get_agency:
  assumes "\<not> lock s"
    and "a = [] \<longrightarrow> configs s (uuid4_hex e) = None"
    and "create_agency e (Some a) s = Some (Inr (i, a'), s')"
    and "untouched a cs s'"
  shows "a' = a \<and> get_agency a None s' = Some (Some i, s') \<and>
         (\<exists>s''. run cs s' = Some s'' \<and> get_agency a None s'' = Some (Some i, s''))"
proof -
  have nonempty: "a \<noteq> []"
  proof
    assume "a = []"
    with assms(2) have "load_agency_from_config e (or_uuid (Some a) (uuid4_hex e)) (configs s)
                          = Inl ConfigurationNotFound"
      by (simp add: load_agency_from_config_def AgencyConfig_load_def)
    with assms(1,3) show False by (simp add: create_agency_free)
  qed
  with assms(1,3) have s': "a' = a" "\<not> lock s'" "cache s' a = Some i"
    by (auto simp add: create_agency_free split: sum.splits prod.splits)
  from run_frame [OF s'(2) assms(4)] obtain s'' where
    "run cs s' = Some s''" "\<not> lock s''" "cache s'' a = cache s' a" by blast
  with s' show ?thesis by (simp add: get_agency_free)
qed

lemma untouched_later_calls: "untouched ''acme'' later_calls acme_created"
  by (simp add: later_calls_def get_agency_free refresh_thread_id_free cache_agency_free
      delete_agency_from_cache_free create_agency_free acme_created_simps
      load_acme_accepting accepting_env_uuid idle_agency_def th1_agency_def)

theorem create_agency_then_get_agency_witness:
  "get_agency ''acme'' None acme_created = Some (Some idle_agency, acme_created) \<and>
   (\<exists>s''. run later_calls acme_created = Some s'' \<and>
          get_agency ''acme'' None s'' = Some (Some idle_agency, s''))"
proof -
  have free: "\<not> lock acme_system" by (simp add: acme_system_simps)
  have fresh: "''acme'' = [] \<longrightarrow> configs acme_system (uuid4_hex accepting_env) = None"
    by simp
  from create_agency_then_get_agency [OF free fresh create_acme untouched_later_calls]
  show ?thesis by blast
qed

end
